theory Spec2Isabelle
  imports Complex_Main
begin

section \<open>Python strings\<close>

text \<open>
  A Python \<open>str\<close> is modelled as a \<open>string\<close>, one \<open>char\<close> per code point below 256.
  The case functions follow Python on ASCII; on the code points from 128 on they leave
  the character as it is, so the statements about case below are stated for ASCII names.
\<close>

definition py_lower :: "char \<Rightarrow> char" where
  "py_lower c =
     (if 65 \<le> (of_char c :: nat) \<and> (of_char c :: nat) \<le> 90
      then char_of (of_char c + (32::nat)) else c)"

definition py_upper :: "char \<Rightarrow> char" where
  "py_upper c =
     (if 97 \<le> (of_char c :: nat) \<and> (of_char c :: nat) \<le> 122
      then char_of (of_char c - (32::nat)) else c)"

definition is_cased :: "char \<Rightarrow> bool" where
  "is_cased c \<longleftrightarrow>
     (65 \<le> (of_char c :: nat) \<and> (of_char c :: nat) \<le> 90) \<or>
     (97 \<le> (of_char c :: nat) \<and> (of_char c :: nat) \<le> 122)"

text \<open>\<open>s.lower()\<close>.\<close>

definition str_lower :: "string \<Rightarrow> string" where
  "str_lower s = map py_lower s"

text \<open>\<open>s.replace(old, new)\<close> for one-character \<open>old\<close> and \<open>new\<close>, the only use in the source.\<close>

definition str_replace :: "char \<Rightarrow> char \<Rightarrow> string \<Rightarrow> string" where
  "str_replace old new s = map (\<lambda>c. if c = old then new else c) s"

text \<open>
  \<open>s.title()\<close>: a cased character is upper-cased when the character before it is not
  cased (or there is none), and lower-cased otherwise.
\<close>

fun title_from :: "bool \<Rightarrow> string \<Rightarrow> string" where
  "title_from previous_is_cased [] = []"
| "title_from previous_is_cased (c # cs) =
     (if previous_is_cased then py_lower c else py_upper c) # title_from (is_cased c) cs"

definition str_title :: "string \<Rightarrow> string" where
  "str_title s = title_from False s"

text \<open>\<open>s.startswith('.')\<close>.\<close>

definition startswith_dot :: "string \<Rightarrow> bool" where
  "startswith_dot s = (case s of [] \<Rightarrow> False | c # _ \<Rightarrow> c = CHR ''.'')"

text \<open>
  \<open>s.strip()\<close> removes the white space at both ends. For a \<open>str\<close> that is the code points
  9 to 13, 28 to 32, 133 and 160.
\<close>

definition is_space :: "char \<Rightarrow> bool" where
  "is_space c \<longleftrightarrow>
     (9 \<le> (of_char c :: nat) \<and> (of_char c :: nat) \<le> 13) \<or>
     (28 \<le> (of_char c :: nat) \<and> (of_char c :: nat) \<le> 32) \<or>
     (of_char c :: nat) = 133 \<or> (of_char c :: nat) = 160"

definition str_strip :: "string \<Rightarrow> string" where
  "str_strip s = rev (dropWhile is_space (rev (dropWhile is_space s)))"

text \<open>\<open>s.split(sep)\<close> for a one-character separator: never the empty list.\<close>

fun str_split :: "char \<Rightarrow> string \<Rightarrow> string list" where
  "str_split sep [] = [[]]"
| "str_split sep (c # cs) =
     (if c = sep then [] # str_split sep cs
      else (case str_split sep cs of
              [] \<Rightarrow> [[c]]
            | f # fs \<Rightarrow> (c # f) # fs))"

section \<open>Errors and indexing\<close>

datatype py_error = ValueError | IndexError

text \<open>\<open>xs[i]\<close> for an index that is not negative.\<close>

definition py_index :: "'a list \<Rightarrow> nat \<Rightarrow> py_error + 'a" where
  "py_index xs i = (if i < length xs then Inr (xs ! i) else Inl IndexError)"

section \<open>Loading the roster (\<open>load_known_faces\<close>, both scripts)\<close>

text \<open>
  The roster directory is what \<open>os.listdir\<close> yields, in its order: for every entry of
  \<open>training_images\<close> its name and, for every file below it, the list of encodings that
  \<open>face_recognition.face_encodings\<close> finds in the image (empty when no face is found).
  Every entry is taken to be a directory of loadable images.
\<close>

type_synonym 'e roster = "(string \<times> 'e list list) list"

definition display_name :: "string \<Rightarrow> string" where
  "display_name name = str_title (str_replace (CHR ''_'') (CHR '' '') name)"

text \<open>The inner loop, over the files of one person.\<close>

fun load_person :: "string \<Rightarrow> 'e list list \<Rightarrow> 'e list \<times> string list \<Rightarrow> 'e list \<times> string list" where
  "load_person name [] acc = acc"
| "load_person name (encodings # files) (known_face_encodings, known_face_names) =
     load_person name files
       (case encodings of
          [] \<Rightarrow> (known_face_encodings, known_face_names)
        | e # _ \<Rightarrow> (known_face_encodings @ [e], known_face_names @ [display_name name]))"

text \<open>The outer loop, over the entries of the roster directory.\<close>

fun load_dirs :: "'e roster \<Rightarrow> 'e list \<times> string list \<Rightarrow> 'e list \<times> string list" where
  "load_dirs [] acc = acc"
| "load_dirs ((name, files) # rest) acc =
     (if startswith_dot name then load_dirs rest acc
      else load_dirs rest (load_person name files acc))"

definition load_known_faces :: "'e roster \<Rightarrow> 'e list \<times> string list" where
  "load_known_faces roster = load_dirs roster ([], [])"

section \<open>Matching one face (the body of the main loop, both scripts)\<close>

definition TOLERANCE :: real where
  "TOLERANCE = 52 / 100"

text \<open>
  \<open>face_recognition.face_distance(known, q)\<close> is the list of the distances from \<open>q\<close> to
  every known encoding; the distance itself (the Euclidean norm of the difference) is the
  parameter \<open>euclid\<close>. \<open>face_recognition.compare_faces(known, q, t)\<close> is
  \<open>list(face_distance(known, q) <= t)\<close>.

  Distances are reals (no NaN), and the float \<open>0.52\<close> is the real \<open>0.52\<close>: the float is
  the one nearest to that real, so a float \<open>d\<close> is below the one exactly when it is
  below the other.
\<close>

definition face_distance :: "('e \<Rightarrow> 'e \<Rightarrow> real) \<Rightarrow> 'e list \<Rightarrow> 'e \<Rightarrow> real list" where
  "face_distance euclid known_face_encodings face_encoding =
     map (\<lambda>k. euclid k face_encoding) known_face_encodings"

definition compare_faces :: "('e \<Rightarrow> 'e \<Rightarrow> real) \<Rightarrow> 'e list \<Rightarrow> 'e \<Rightarrow> real \<Rightarrow> bool list" where
  "compare_faces euclid known_face_encodings face_encoding tolerance =
     map (\<lambda>d. d \<le> tolerance) (face_distance euclid known_face_encodings face_encoding)"

text \<open>
  \<open>np.argmin\<close>: a scan that keeps the index of the smallest value seen so far and moves
  only to a strictly smaller one; on an empty array it raises \<open>ValueError\<close>.
\<close>

fun argmin_loop :: "real list \<Rightarrow> nat \<Rightarrow> nat \<Rightarrow> real \<Rightarrow> nat" where
  "argmin_loop [] i best v = best"
| "argmin_loop (d # ds) i best v =
     (if d < v then argmin_loop ds (Suc i) i d else argmin_loop ds (Suc i) best v)"

definition np_argmin :: "real list \<Rightarrow> py_error + nat" where
  "np_argmin ds = (case ds of [] \<Rightarrow> Inl ValueError | d # rest \<Rightarrow> Inr (argmin_loop rest 1 0 d))"

text \<open>
  The decision of the loop body: \<open>Some name\<close> when the branch that records attendance is
  taken, \<open>None\<close> when the face is labelled as not matching.
\<close>

definition decision ::
  "('e \<Rightarrow> 'e \<Rightarrow> real) \<Rightarrow> 'e list \<Rightarrow> string list \<Rightarrow> 'e \<Rightarrow> py_error + string option" where
  "decision euclid known_face_encodings known_face_names face_encoding =
     (let matches = compare_faces euclid known_face_encodings face_encoding TOLERANCE;
          face_distances = face_distance euclid known_face_encodings face_encoding
      in case np_argmin face_distances of
           Inl e \<Rightarrow> Inl e
         | Inr best_match_index \<Rightarrow>
             (case py_index matches best_match_index of
                Inl e \<Rightarrow> Inl e
              | Inr m \<Rightarrow>
                  if \<not> m then Inr None
                  else (case py_index face_distances best_match_index of
                          Inl e \<Rightarrow> Inl e
                        | Inr d \<Rightarrow>
                            if d < TOLERANCE
                            then (case py_index known_face_names best_match_index of
                                    Inl e \<Rightarrow> Inl e
                                  | Inr name \<Rightarrow> Inr (Some name))
                            else Inr None)))"

text \<open>
  The same loop body with the single test \<open>face_distances[best_match_index] < TOLERANCE\<close>
  in place of the two-part test, to be compared with the one above.
\<close>

definition decision_single_test ::
  "('e \<Rightarrow> 'e \<Rightarrow> real) \<Rightarrow> 'e list \<Rightarrow> string list \<Rightarrow> 'e \<Rightarrow> py_error + string option" where
  "decision_single_test euclid known_face_encodings known_face_names face_encoding =
     (let face_distances = face_distance euclid known_face_encodings face_encoding
      in case np_argmin face_distances of
           Inl e \<Rightarrow> Inl e
         | Inr best_match_index \<Rightarrow>
             (case py_index face_distances best_match_index of
                Inl e \<Rightarrow> Inl e
              | Inr d \<Rightarrow>
                  if d < TOLERANCE
                  then (case py_index known_face_names best_match_index of
                          Inl e \<Rightarrow> Inl e
                        | Inr name \<Rightarrow> Inr (Some name))
                  else Inr None))"

definition NOT_MATCH :: string where
  "NOT_MATCH = ''Face not match - UPDATE DATABASE''"

section \<open>The local log (\<open>attendance_recognition2.py\<close>)\<close>

text \<open>
  The clock and the two library functions on time stamps are parameters.
  \<open>now_at env n\<close> is what the \<open>n\<close>-th call of \<open>datetime.now()\<close> of the process returns,
  in whole seconds: the log keeps whole seconds (\<open>%S\<close>), and for a logged time \<open>t\<close> in
  whole seconds \<open>now - t < 3600\<close> holds for \<open>now\<close> exactly when it holds for \<open>now\<close> rounded
  down to the second. \<open>strftime env t\<close> is \<open>t.strftime('%Y-%m-%d %H:%M:%S')\<close> and
  \<open>strptime env s\<close> is \<open>datetime.strptime(s, '%Y-%m-%d %H:%M:%S')\<close>, \<open>None\<close> when it raises.
\<close>

record pyenv =
  now_at :: "nat \<Rightarrow> int"
  strftime :: "int \<Rightarrow> string"
  strptime :: "string \<Rightarrow> int option"

text \<open>The state of the script: the attendance file, and how often the clock was read.\<close>

record log_world =
  log_file :: string
  clock_reads :: nat

abbreviation LF :: char where
  "LF \<equiv> CHR 0x0A"

abbreviation CR :: char where
  "CR \<equiv> CHR 0x0D"

text \<open>What the script writes when the file does not exist: \<open>'Name, Timestamp\n'\<close>.\<close>

definition initial_log :: string where
  "initial_log = ''Name, Timestamp'' @ [LF]"

text \<open>
  The file is opened in text mode, so what is read has \<open>\r\n\<close> and \<open>\r\<close> turned into
  \<open>\n\<close>: every \<open>\r\<close> is read as \<open>\n\<close>, and a \<open>\n\<close> right after a \<open>\r\<close> is dropped. What
  is written is written as it is (POSIX).
\<close>

fun newlines_from :: "bool \<Rightarrow> string \<Rightarrow> string" where
  "newlines_from pending_cr [] = []"
| "newlines_from pending_cr (c # cs) =
     (if c = CR then LF # newlines_from True cs
      else if c = LF \<and> pending_cr then newlines_from False cs
      else c # newlines_from False cs)"

definition universal_newlines :: "string \<Rightarrow> string" where
  "universal_newlines s = newlines_from False s"

text \<open>\<open>f.readlines()\<close>: the lines, each with its \<open>\n\<close> (the last one may have none).\<close>

fun lines_from :: "string \<Rightarrow> string \<Rightarrow> string list" where
  "lines_from line [] = (if line = [] then [] else [line])"
| "lines_from line (c # cs) =
     (if c = LF then (line @ [LF]) # lines_from [] cs else lines_from (line @ [c]) cs)"

definition readlines :: "string \<Rightarrow> string list" where
  "readlines s = lines_from [] s"

text \<open>
  The first statement of the \<open>try\<close> block: \<open>None\<close> when \<open>entry[1]\<close> or \<open>strptime\<close>
  raises, which the bare \<open>except\<close> swallows.
\<close>

definition log_time_of :: "pyenv \<Rightarrow> string list \<Rightarrow> int option" where
  "log_time_of env entry =
     (case py_index entry 1 of
        Inl e \<Rightarrow> None
      | Inr field \<Rightarrow> strptime env (str_strip field))"

text \<open>The loop over the lines; \<open>n\<close> counts the readings of the clock.\<close>

fun scan_log :: "pyenv \<Rightarrow> string list \<Rightarrow> string list \<Rightarrow> nat \<Rightarrow> string list \<times> nat" where
  "scan_log env [] recently_logged n = (recently_logged, n)"
| "scan_log env (line # log_data) recently_logged n =
     (let entry = str_split (CHR '','') line
      in case log_time_of env entry of
           None \<Rightarrow> scan_log env log_data recently_logged n
         | Some log_time \<Rightarrow>
             if now_at env n - log_time < 3600
             then scan_log env log_data (recently_logged @ [str_strip (entry ! 0)]) (Suc n)
             else scan_log env log_data recently_logged (Suc n))"

definition log_attendance :: "pyenv \<Rightarrow> string \<Rightarrow> log_world \<Rightarrow> bool \<times> log_world" where
  "log_attendance env name w =
     (let log_data = readlines (universal_newlines (log_file w));
          (recently_logged, n) = scan_log env log_data [] (clock_reads w)
      in if name \<notin> set recently_logged
         then (True,
               \<lparr>log_file = log_file w @ [LF] @ name @ '', '' @ strftime env (now_at env n),
                clock_reads = Suc n\<rparr>)
         else (False, \<lparr>log_file = log_file w, clock_reads = n\<rparr>))"

text \<open>The body of the main loop for one face: the label drawn, and the new state.\<close>

definition process_face_log ::
  "pyenv \<Rightarrow> ('e \<Rightarrow> 'e \<Rightarrow> real) \<Rightarrow> 'e list \<Rightarrow> string list \<Rightarrow> 'e \<Rightarrow> log_world
     \<Rightarrow> py_error + string \<times> log_world" where
  "process_face_log env euclid known_face_encodings known_face_names face_encoding w =
     (case decision euclid known_face_encodings known_face_names face_encoding of
        Inl e \<Rightarrow> Inl e
      | Inr None \<Rightarrow> Inr (NOT_MATCH, w)
      | Inr (Some name) \<Rightarrow> Inr (name, snd (log_attendance env name w)))"

text \<open>The loop over the faces of one frame; an exception ends the script.\<close>

fun process_frame_log ::
  "pyenv \<Rightarrow> ('e \<Rightarrow> 'e \<Rightarrow> real) \<Rightarrow> 'e list \<Rightarrow> string list \<Rightarrow> 'e list \<Rightarrow> log_world
     \<Rightarrow> py_error + string list \<times> log_world" where
  "process_frame_log env euclid encs names [] w = Inr ([], w)"
| "process_frame_log env euclid encs names (face_encoding # rest) w =
     (case process_face_log env euclid encs names face_encoding w of
        Inl e \<Rightarrow> Inl e
      | Inr (label, w') \<Rightarrow>
          (case process_frame_log env euclid encs names rest w' of
             Inl e \<Rightarrow> Inl e
           | Inr (labels, w'') \<Rightarrow> Inr (label # labels, w'')))"

text \<open>
  A run of \<open>log_attendance\<close> over the names recognised one after the other: the
  attendance events it logs, each with the time written (the last reading of the clock
  of the call).
\<close>

fun run_log :: "pyenv \<Rightarrow> string list \<Rightarrow> log_world \<Rightarrow> (string \<times> int) list" where
  "run_log env [] w = []"
| "run_log env (name # names) w =
     (let (logged, w') = log_attendance env name w
      in if logged then (name, now_at env (clock_reads w' - 1)) # run_log env names w'
         else run_log env names w')"


section \<open>The remote sink: the client (\<open>attendance_recognition.py\<close>)\<close>

text \<open>
  What \<open>requests.post\<close> can do: raise (a \<open>ConnectionError\<close>, or another exception), or
  return a response with a status code and a body (the source sets no timeout; the call
  is taken to come back). \<open>response.json()\<close> raises on a body
  that is not JSON; \<open>.get\<close> raises \<open>AttributeError\<close> on JSON that is not an object. The
  values of a JSON object are kept as the text an f-string prints for them.
\<close>

datatype exn = ConnectionError | JSONDecodeError | AttributeError | OtherException string

datatype json_body = NotJson | JsonObject "(string \<times> string) list" | JsonOther

type_synonym post_result = "exn + nat \<times> json_body"

text \<open>The lines the client prints.\<close>

datatype console_line =
    API_SUCCESS string
  | API_FAIL nat string
  | API_FATAL
  | API_ERROR exn

text \<open>
  The state around the client: the network (whatever answers the requests, with its own
  state), the payloads posted so far, and the console.
\<close>

record 'n api_world =
  network :: 'n
  posted :: "string list"
  console :: "console_line list"

text \<open>\<open>response.json().get('error', 'Unknown server issue.')\<close>.\<close>

definition error_msg_of :: "json_body \<Rightarrow> exn + string" where
  "error_msg_of body =
     (case body of
        NotJson \<Rightarrow> Inl JSONDecodeError
      | JsonOther \<Rightarrow> Inl AttributeError
      | JsonObject kvs \<Rightarrow>
          (case map_of kvs ''error'' of
             None \<Rightarrow> Inr ''Unknown server issue.''
           | Some m \<Rightarrow> Inr m))"

text \<open>The \<open>try\<close> block: the state it leaves, and the exception it raises, if any.\<close>

definition api_try ::
  "('n \<Rightarrow> string \<Rightarrow> post_result \<times> 'n) \<Rightarrow> string \<Rightarrow> 'n api_world \<Rightarrow> 'n api_world \<times> exn option" where
  "api_try post face_id_name w =
     (let payload = str_replace (CHR '' '') (CHR ''_'') (str_lower face_id_name);
          (response, net) = post (network w) payload;
          w1 = w\<lparr>network := net, posted := posted w @ [payload]\<rparr>
      in case response of
           Inl e \<Rightarrow> (w1, Some e)
         | Inr (status_code, body) \<Rightarrow>
             if status_code = 201
             then (w1\<lparr>console := console w1 @ [API_SUCCESS face_id_name]\<rparr>, None)
             else (case error_msg_of body of
                     Inl e \<Rightarrow> (w1, Some e)
                   | Inr error_msg \<Rightarrow>
                       (w1\<lparr>console := console w1 @ [API_FAIL status_code error_msg]\<rparr>, None)))"

text \<open>The function with its two handlers; \<open>Inl\<close> would be an exception that leaves it.\<close>

definition mark_attendance_via_api ::
  "('n \<Rightarrow> string \<Rightarrow> post_result \<times> 'n) \<Rightarrow> string \<Rightarrow> 'n api_world \<Rightarrow> exn + 'n api_world" where
  "mark_attendance_via_api post face_id_name w =
     (case api_try post face_id_name w of
        (w1, None) \<Rightarrow> Inr w1
      | (w1, Some ConnectionError) \<Rightarrow> Inr (w1\<lparr>console := console w1 @ [API_FATAL]\<rparr>)
      | (w1, Some e) \<Rightarrow> Inr (w1\<lparr>console := console w1 @ [API_ERROR e]\<rparr>))"

text \<open>The body of the main loop for one face, and the loop over the faces of a frame.\<close>

datatype loop_error = Matching py_error | Sink exn

definition process_face_api ::
  "('n \<Rightarrow> string \<Rightarrow> post_result \<times> 'n) \<Rightarrow> ('e \<Rightarrow> 'e \<Rightarrow> real) \<Rightarrow> 'e list \<Rightarrow> string list \<Rightarrow> 'e
     \<Rightarrow> 'n api_world \<Rightarrow> loop_error + string \<times> 'n api_world" where
  "process_face_api post euclid known_face_encodings known_face_names face_encoding w =
     (case decision euclid known_face_encodings known_face_names face_encoding of
        Inl e \<Rightarrow> Inl (Matching e)
      | Inr None \<Rightarrow> Inr (NOT_MATCH, w)
      | Inr (Some name) \<Rightarrow>
          (case mark_attendance_via_api post name w of
             Inl e \<Rightarrow> Inl (Sink e)
           | Inr w' \<Rightarrow> Inr (name, w')))"

fun process_frame_api ::
  "('n \<Rightarrow> string \<Rightarrow> post_result \<times> 'n) \<Rightarrow> ('e \<Rightarrow> 'e \<Rightarrow> real) \<Rightarrow> 'e list \<Rightarrow> string list \<Rightarrow> 'e list
     \<Rightarrow> 'n api_world \<Rightarrow> loop_error + string list \<times> 'n api_world" where
  "process_frame_api post euclid encs names [] w = Inr ([], w)"
| "process_frame_api post euclid encs names (face_encoding # rest) w =
     (case process_face_api post euclid encs names face_encoding w of
        Inl e \<Rightarrow> Inl e
      | Inr (label, w') \<Rightarrow>
          (case process_frame_api post euclid encs names rest w' of
             Inl e \<Rightarrow> Inl e
           | Inr (labels, w'') \<Rightarrow> Inr (label # labels, w'')))"

section \<open>The remote sink: the server (\<open>mark_attendance\<close> of \<open>app.py\<close>)\<close>

text \<open>
  The tables, without the keys the database assigns. \<open>Student\<close> and \<open>Teacher\<close> have the
  same columns.
\<close>

record person =
  face_id :: string
  person_name :: string

record attendance =
  person_face_id :: string
  status :: string
  timestamp :: int

record db =
  students :: "person list"
  teachers :: "person list"
  attendance_rows :: "attendance list"

text \<open>
  The handler, for a request whose JSON is an object with text values (what the client
  sends); \<open>utcnow\<close> is the reading of \<open>datetime.utcnow()\<close>. The answer is the status code
  and the JSON object.
\<close>

definition mark_attendance ::
  "int \<Rightarrow> (string \<times> string) list \<Rightarrow> db \<Rightarrow> (nat \<times> (string \<times> string) list) \<times> db" where
  "mark_attendance utcnow data d =
     (case map_of data ''face_id'' of
        None \<Rightarrow> ((400, [(''error'', ''Missing 'face_id' in request data.'')]), d)
      | Some pid \<Rightarrow>
          if pid = [] then ((400, [(''error'', ''Missing 'face_id' in request data.'')]), d)
          else if (\<exists>s \<in> set (students d). face_id s = pid) \<or>
                  (\<exists>t \<in> set (teachers d). face_id t = pid)
          then ((201, [(''message'', ''Attendance marked for '' @ pid @ ''.'')]),
                d\<lparr>attendance_rows := attendance_rows d @
                     [\<lparr>person_face_id = pid, status = ''Present'', timestamp = utcnow\<rparr>]\<rparr>)
          else ((404, [(''error'',
                  ''ID '' @ pid @ '' recognized by AI but not found in DB. Enroll first.'')]), d))"

text \<open>
  The network when the Flask server answers: its state is the database and the number
  of requests served, and \<open>utcnow_at k\<close> is the server's clock at request \<open>k\<close>.
\<close>

definition flask_post :: "(nat \<Rightarrow> int) \<Rightarrow> db \<times> nat \<Rightarrow> string \<Rightarrow> post_result \<times> (db \<times> nat)" where
  "flask_post utcnow_at srv payload =
     (let (answer, d) = mark_attendance (utcnow_at (snd srv)) [(''face_id'', payload)] (fst srv)
      in (Inr (fst answer, JsonObject (snd answer)), (d, Suc (snd srv))))"


text \<open>
  The protocol in the words of the specification: "created" is success, "conflict" a
  duplicate, any other code a generic failure. Beside it, what a line of the client's
  console stands for.
\<close>

datatype sink_outcome = Created | Duplicate | GenericFailure | Unreachable

definition spec_sink_protocol :: "nat \<Rightarrow> sink_outcome" where
  "spec_sink_protocol status_code =
     (if status_code = 201 then Created
      else if status_code = 409 then Duplicate
      else GenericFailure)"

fun outcome_of_line :: "console_line \<Rightarrow> sink_outcome" where
  "outcome_of_line (API_SUCCESS n) = Created"
| "outcome_of_line (API_FAIL code msg) = GenericFailure"
| "outcome_of_line API_FATAL = Unreachable"
| "outcome_of_line (API_ERROR e) = GenericFailure"


section \<open>Auxiliary notions for the statements\<close>

text \<open>The position of the first smallest element of a list.\<close>

definition first_min :: "real list \<Rightarrow> nat" where
  "first_min ds = length (takeWhile (\<lambda>d. d \<noteq> Min (set ds)) ds)"


text \<open>
  What the loop of \<open>log_attendance\<close> reads from one line: the name and the time, when
  the \<open>try\<close> block gets as far as the comparison. \<open>file_entries\<close> are those of a file.
\<close>

definition entry_of :: "pyenv \<Rightarrow> string \<Rightarrow> (string \<times> int) option" where
  "entry_of env line =
     (let entry = str_split (CHR '','') line
      in case log_time_of env entry of
           None \<Rightarrow> None
         | Some log_time \<Rightarrow> Some (str_strip (entry ! 0), log_time))"

definition entries :: "pyenv \<Rightarrow> string list \<Rightarrow> (string \<times> int) list" where
  "entries env log_data = List.map_filter (entry_of env) log_data"

definition file_entries :: "pyenv \<Rightarrow> string \<Rightarrow> (string \<times> int) list" where
  "file_entries env file = entries env (readlines (universal_newlines file))"

text \<open>
  A name that comes back from the log as it was written: no comma, no line break, no
  white space at its ends.
\<close>

definition wf_name :: "string \<Rightarrow> bool" where
  "wf_name name \<longleftrightarrow>
     CHR '','' \<notin> set name \<and> LF \<notin> set name \<and> CR \<notin> set name \<and> str_strip name = name"



section \<open>A scenario\<close>

text \<open>
  The scenario of the specification: one enrolled person; the clock shows 0 s, 1800 s
  and from then on 3700 s after 2024-01-01 00:00:00. The two library functions are
  given on these three instants. Encodings are numbers, their distance the absolute
  difference.
\<close>

definition scenario_now :: "nat \<Rightarrow> int" where
  "scenario_now n = (if n = 0 then 0 else if n = 1 then 1800 else 3700)"

definition scenario_strftime :: "int \<Rightarrow> string" where
  "scenario_strftime t =
     (if t = 0 then ''2024-01-01 00:00:00''
      else if t = 1800 then ''2024-01-01 00:30:00''
      else ''2024-01-01 01:01:40'')"

definition scenario_strptime :: "string \<Rightarrow> int option" where
  "scenario_strptime s =
     (if s = ''2024-01-01 00:00:00'' then Some 0
      else if s = ''2024-01-01 00:30:00'' then Some 1800
      else if s = ''2024-01-01 01:01:40'' then Some 3700
      else None)"

definition scenario_env :: pyenv where
  "scenario_env =
     \<lparr>now_at = scenario_now, strftime = scenario_strftime, strptime = scenario_strptime\<rparr>"

definition scenario_start :: log_world where
  "scenario_start = \<lparr>log_file = initial_log, clock_reads = 0\<rparr>"

definition scenario_euclid :: "real \<Rightarrow> real \<Rightarrow> real" where
  "scenario_euclid a b = \<bar>a - b\<bar>"

text \<open>The server with the person enrolled, its clock at \<open>k\<close> seconds at request \<open>k\<close>.\<close>

definition scenario_db :: db where
  "scenario_db =
     \<lparr>students = [\<lparr>face_id = ''chetan_yadav'', person_name = ''Chetan Yadav''\<rparr>],
      teachers = [], attendance_rows = []\<rparr>"

definition scenario_remote :: "(db \<times> nat) api_world" where
  "scenario_remote = \<lparr>network = (scenario_db, 0), posted = [], console = []\<rparr>"

section \<open>Matching: the index that \<open>np.argmin\<close> returns\<close>

lemma py_index_in_range: "i < length xs \<Longrightarrow> py_index xs i = Inr (xs ! i)"
  by (simp add: py_index_def)

lemma argmin_loop_closed:
  "argmin_loop ds i best v =
     (if \<exists>d \<in> set ds. d < v then i + length (takeWhile (\<lambda>d. d \<noteq> Min (set ds)) ds) else best)"
proof (induction ds arbitrary: i best v)
  case Nil
  then show ?case by simp
next
  case (Cons d ds)
  show ?case
  proof (cases "d < v")
    case True
    show ?thesis
    proof (cases "\<exists>e \<in> set ds. e < d")
      case True
      then have ne: "set ds \<noteq> {}" by auto
      have lt: "Min (set ds) < d" using True ne by (simp add: Min_less_iff)
      have "Min (set (d # ds)) = min d (Min (set ds))"
        using Min_insert[OF finite_set ne, of d] by simp
      with lt have "Min (set (d # ds)) = Min (set ds)" by (simp add: min_def)
      moreover have "d \<noteq> Min (set ds)" using lt by simp
      ultimately show ?thesis using \<open>d < v\<close> True Cons.IH[of "Suc i" i d] by simp
    next
      case False
      then have "Min (set (d # ds)) = d"
        by (simp add: Min_insert2 linorder_not_less)
      then show ?thesis using \<open>d < v\<close> False Cons.IH[of "Suc i" i d] by simp
    qed
  next
    case False
    show ?thesis
    proof (cases "\<exists>e \<in> set ds. e < v")
      case True
      then have ne: "set ds \<noteq> {}" by auto
      from True obtain e where e: "e \<in> set ds" "e < v" by blast
      with False have "e < d" by simp
      with e have lt: "Min (set ds) < d" using ne by (auto simp add: Min_less_iff)
      have "Min (set (d # ds)) = min d (Min (set ds))"
        using Min_insert[OF finite_set ne, of d] by simp
      with lt have m: "Min (set (d # ds)) = Min (set ds)" by (simp add: min_def)
      moreover have "d \<noteq> Min (set ds)" using lt by simp
      ultimately show ?thesis using False True Cons.IH[of "Suc i" best v] by simp
    next
      case F2: False
      then show ?thesis using False Cons.IH[of "Suc i" best v] by simp
    qed
  qed
qed

lemma np_argmin_first_min:
  assumes "ds \<noteq> []"
  shows "np_argmin ds = Inr (first_min ds)"
proof -
  from assms obtain d rest where ds: "ds = d # rest" by (cases ds) auto
  have ex: "\<exists>x \<in> set (d # rest). x < d + 1" by simp
  have "argmin_loop (d # rest) 0 0 (d + 1) = first_min (d # rest)"
    unfolding argmin_loop_closed first_min_def using ex by (simp only: if_True add_0_left)
  moreover have "argmin_loop (d # rest) 0 0 (d + 1) = argmin_loop rest 1 0 d"
    by simp
  ultimately show ?thesis by (simp add: ds np_argmin_def)
qed

lemma first_min_less:
  assumes "ds \<noteq> []"
  shows "first_min ds < length ds"
proof -
  let ?P = "\<lambda>d. d \<noteq> Min (set ds)"
  have mem: "Min (set ds) \<in> set ds" using assms by simp
  have "length (takeWhile ?P ds) \<noteq> length ds"
  proof
    assume "length (takeWhile ?P ds) = length ds"
    then have "takeWhile ?P ds = ds"
      using takeWhile_eq_take[of ?P ds] by simp
    then have "\<forall>x \<in> set ds. ?P x" by (simp only: takeWhile_eq_all_conv)
    with mem show False by blast
  qed
  moreover have "length (takeWhile ?P ds) \<le> length ds" by (rule length_takeWhile_le)
  ultimately show ?thesis unfolding first_min_def by simp
qed

lemma first_min_is_min:
  assumes "ds \<noteq> []"
  shows "ds ! first_min ds = Min (set ds)"
  using first_min_less[OF assms] unfolding first_min_def
  using nth_length_takeWhile by blast

lemma first_min_first:
  assumes "j < first_min ds"
  shows "ds ! j \<noteq> Min (set ds)"
  using assms unfolding first_min_def
  by (metis (mono_tags, lifting) nth_mem set_takeWhileD takeWhile_nth)

lemma first_min_least:
  assumes "j < length ds" and "ds ! j = Min (set ds)"
  shows "first_min ds \<le> j"
  using assms first_min_first linorder_not_less by blast

section \<open>Matching: the decision on a gallery that is not empty\<close>

lemma decision_nonempty:
  assumes "known_face_encodings \<noteq> []"
    and "length known_face_names = length known_face_encodings"
  shows "decision euclid known_face_encodings known_face_names q =
           Inr (let ds = face_distance euclid known_face_encodings q
                in if ds ! first_min ds < TOLERANCE
                   then Some (known_face_names ! first_min ds) else None)"
proof -
  let ?ds = "face_distance euclid known_face_encodings q"
  have ne: "?ds \<noteq> []" using assms by (simp add: face_distance_def)
  have len: "length ?ds = length known_face_encodings" by (simp add: face_distance_def)
  have lt: "first_min ?ds < length known_face_encodings"
    using first_min_less[OF ne] len by simp
  have m: "compare_faces euclid known_face_encodings q TOLERANCE ! first_min ?ds
             = (?ds ! first_min ?ds \<le> TOLERANCE)"
    using lt len by (simp add: compare_faces_def)
  show ?thesis
    using lt len assms(2) m
    by (simp add: decision_def np_argmin_first_min[OF ne] py_index_def compare_faces_def Let_def)
qed

lemma decision_empty: "decision euclid [] names q = Inl ValueError"
  by (simp add: decision_def face_distance_def np_argmin_def)

section \<open>Display names and identifiers\<close>






section \<open>Loading: the lists in closed form\<close>

lemma load_person_closed:
  "load_person name files (encs, names) =
     (encs @ map hd (filter (\<lambda>e. e \<noteq> []) files),
      names @ replicate (length (filter (\<lambda>e. e \<noteq> []) files)) (display_name name))"
proof (induction files arbitrary: encs names)
  case Nil
  then show ?case by simp
next
  case (Cons encodings files)
  then show ?case by (cases encodings) (simp_all add: replicate_app_Cons_same)
qed

lemma load_dirs_closed:
  "load_dirs roster (encs, names) =
     (encs @ concat (map (\<lambda>(name, files). map hd (filter (\<lambda>e. e \<noteq> []) files))
                (filter (\<lambda>(name, files). \<not> startswith_dot name) roster)),
      names @ concat (map (\<lambda>(name, files).
                  replicate (length (filter (\<lambda>e. e \<noteq> []) files)) (display_name name))
                (filter (\<lambda>(name, files). \<not> startswith_dot name) roster)))"
proof (induction roster arbitrary: encs names)
  case Nil
  then show ?case by simp
next
  case (Cons entry roster)
  obtain name files where e: "entry = (name, files)" by (cases entry)
  show ?case by (simp add: e Cons.IH load_person_closed)
qed

section \<open>The client: one request, one line\<close>

lemma mark_via_api_total:
  "\<exists>w'. mark_attendance_via_api post face_id_name w = Inr w'
        \<and> posted w' = posted w @ [str_replace (CHR '' '') (CHR ''_'') (str_lower face_id_name)]
        \<and> length (console w') = Suc (length (console w))
        \<and> network w' = snd (post (network w) (str_replace (CHR '' '') (CHR ''_'') (str_lower face_id_name)))"
  by (auto simp add: mark_attendance_via_api_def api_try_def Let_def
        split: prod.splits sum.splits option.splits exn.splits)

section \<open>The local log: what a call reads and writes\<close>

subsection \<open>Splitting and stripping\<close>










subsection \<open>Lines of a file that grows\<close>




lemma entries_Nil: "entries env [] = []"
  by (simp add: entries_def map_filter_simps)

lemma entries_Cons:
  "entries env (l # ls) =
     (case entry_of env l of None \<Rightarrow> entries env ls | Some e \<Rightarrow> e # entries env ls)"
  by (simp add: entries_def map_filter_simps split: option.splits)







subsection \<open>The loop over the lines\<close>

lemma scan_log_ticks:
  "snd (scan_log env log_data acc n) = n + length (entries env log_data)"
  by (induction log_data arbitrary: acc n)
     (simp_all add: entries_Nil entries_Cons entry_of_def Let_def split: option.splits)

lemma scan_log_mem:
  "x \<in> set (fst (scan_log env log_data acc n)) \<longleftrightarrow>
     x \<in> set acc \<or>
     (\<exists>k < length (entries env log_data).
        fst (entries env log_data ! k) = x \<and>
        now_at env (n + k) - snd (entries env log_data ! k) < 3600)"
proof (induction log_data arbitrary: acc n)
  case Nil
  then show ?case by (simp add: entries_Nil)
next
  case (Cons line log_data)
  let ?es = "entries env log_data"
  show ?case
  proof (cases "entry_of env line")
    case None
    then have "log_time_of env (str_split (CHR '','') line) = None"
      by (simp add: entry_of_def Let_def split: option.splits)
    then show ?thesis using None Cons.IH by (simp add: entries_Cons Let_def)
  next
    case (Some e)
    obtain y t where e: "e = (y, t)" by (cases e)
    have lt: "log_time_of env (str_split (CHR '','') line) = Some t"
      and y: "str_strip (str_split (CHR '','') line ! 0) = y"
      using Some e by (simp_all add: entry_of_def Let_def split: option.splits)
    have ex: "(\<exists>k < Suc (length ?es). P k) \<longleftrightarrow> P 0 \<or> (\<exists>k < length ?es. P (Suc k))" for P
      by (metis less_Suc_eq_0_disj)
    show ?thesis
      using Some e lt y Cons.IH
      by (auto simp add: entries_Cons Let_def ex)
  qed
qed

lemma log_attendance_logged_iff:
  "fst (log_attendance env name w) \<longleftrightarrow>
     (\<forall>k < length (file_entries env (log_file w)).
        fst (file_entries env (log_file w) ! k) = name \<longrightarrow>
        3600 \<le> now_at env (clock_reads w + k) - snd (file_entries env (log_file w) ! k))"
proof -
  let ?ld = "readlines (universal_newlines (log_file w))"
  obtain r n where s: "scan_log env ?ld [] (clock_reads w) = (r, n)" by fastforce
  have "name \<in> set r \<longleftrightarrow> (\<exists>k < length (entries env ?ld).
        fst (entries env ?ld ! k) = name \<and>
        now_at env (clock_reads w + k) - snd (entries env ?ld ! k) < 3600)"
    using scan_log_mem[of name env ?ld "[]" "clock_reads w"] s by simp
  then show ?thesis
    by (auto simp add: log_attendance_def s file_entries_def Let_def not_less)
qed

lemma log_attendance_state:
  "snd (log_attendance env name w) =
     (let n = clock_reads w + length (file_entries env (log_file w))
      in if fst (log_attendance env name w)
         then \<lparr>log_file = log_file w @ LF # name @ CHR '','' # CHR '' '' # strftime env (now_at env n),
               clock_reads = Suc n\<rparr>
         else \<lparr>log_file = log_file w, clock_reads = n\<rparr>)"
proof -
  let ?ld = "readlines (universal_newlines (log_file w))"
  obtain r n where s: "scan_log env ?ld [] (clock_reads w) = (r, n)" by fastforce
  have "n = clock_reads w + length (entries env ?ld)"
    using scan_log_ticks[of env ?ld "[]" "clock_reads w"] s by simp
  then show ?thesis
    by (simp add: log_attendance_def s file_entries_def Let_def)
qed

subsection \<open>Runs of \<open>log_attendance\<close>\<close>










section \<open>The scenario satisfies the assumptions\<close>





section \<open>The claims\<close>

subsection \<open>C1: the cooldown\<close>




text \<open>
  The assumption on the name is needed: a name with a comma is not found again in its
  own line (the time is looked for in the second field), so it is logged again 1800
  seconds later.
\<close>

lemma comma_name_logged_within_window:
  "run_log scenario_env [''Yadav, Chetan'', ''Yadav, Chetan''] scenario_start
     = [(''Yadav, Chetan'', 0), (''Yadav, Chetan'', 1800)]
   \<and> \<not> wf_name ''Yadav, Chetan''"
  by code_simp

subsection \<open>C2: the empty gallery\<close>

text \<open>
  C2 asks that a face seen while the gallery is empty is labelled as unknown and that
  the loop goes on. The code has no check for the empty gallery: \<open>np.argmin\<close> is called
  on the empty array of distances and raises \<open>ValueError\<close>, which nothing catches, in
  both scripts. No attendance is recorded, but the script ends.
\<close>

theorem empty_gallery_raises:
  "decision euclid [] known_face_names q = Inl ValueError
   \<and> process_face_log env euclid [] known_face_names q w = Inl ValueError
   \<and> process_frame_log env euclid [] known_face_names (q # qs) w = Inl ValueError
   \<and> process_face_api post euclid [] known_face_names q s = Inl (Matching ValueError)
   \<and> process_frame_api post euclid [] known_face_names (q # qs) s = Inl (Matching ValueError)"
  by (simp add: decision_empty process_face_log_def process_face_api_def)

subsection \<open>C3: the threshold\<close>

text \<open>
  C3: for a gallery that is not empty (with one name per encoding, as
  \<open>load_known_faces\<close> builds it), the branch that records attendance is taken exactly
  when the smallest distance is strictly below \<open>TOLERANCE\<close>; when it is not, the face
  is labelled as not matching and the state (the log, or the requests sent and the
  console) is untouched, whatever it is; when it is, \<open>log_attendance\<close>, or
  \<open>mark_attendance_via_api\<close>, is called with the name.
\<close>

theorem threshold_semantics:
  assumes "known_face_encodings \<noteq> []"
    and "length known_face_names = length known_face_encodings"
  shows "((\<exists>name. decision euclid known_face_encodings known_face_names q = Inr (Some name))
            \<longleftrightarrow> Min (set (face_distance euclid known_face_encodings q)) < TOLERANCE)
       \<and> (TOLERANCE \<le> Min (set (face_distance euclid known_face_encodings q)) \<longrightarrow>
            decision euclid known_face_encodings known_face_names q = Inr None
          \<and> process_face_log env euclid known_face_encodings known_face_names q w
              = Inr (NOT_MATCH, w)
          \<and> process_face_api post euclid known_face_encodings known_face_names q s
              = Inr (NOT_MATCH, s))
       \<and> (Min (set (face_distance euclid known_face_encodings q)) < TOLERANCE \<longrightarrow>
            (\<exists>name. process_face_log env euclid known_face_encodings known_face_names q w
                       = Inr (name, snd (log_attendance env name w))
                   \<and> (\<exists>s'. mark_attendance_via_api post name s = Inr s'
                          \<and> process_face_api post euclid known_face_encodings known_face_names q s
                              = Inr (name, s'))))"
proof -
  let ?ds = "face_distance euclid known_face_encodings q"
  have ne: "?ds \<noteq> []" using assms by (simp add: face_distance_def)
  have mn: "?ds ! first_min ?ds = Min (set ?ds)" by (rule first_min_is_min[OF ne])
  have d: "decision euclid known_face_encodings known_face_names q =
             Inr (if Min (set ?ds) < TOLERANCE
                  then Some (known_face_names ! first_min ?ds) else None)"
    using decision_nonempty[OF assms, of euclid q] mn by (simp add: Let_def)
  have rejected: "decision euclid known_face_encodings known_face_names q = Inr None
          \<and> process_face_log env euclid known_face_encodings known_face_names q w
              = Inr (NOT_MATCH, w)
          \<and> process_face_api post euclid known_face_encodings known_face_names q s
              = Inr (NOT_MATCH, s)"
    if "TOLERANCE \<le> Min (set ?ds)"
    using that by (simp add: d process_face_log_def process_face_api_def)
  have accepted: "\<exists>name. process_face_log env euclid known_face_encodings known_face_names q w
                       = Inr (name, snd (log_attendance env name w))
                   \<and> (\<exists>s'. mark_attendance_via_api post name s = Inr s'
                          \<and> process_face_api post euclid known_face_encodings known_face_names q s
                              = Inr (name, s'))"
    if "Min (set ?ds) < TOLERANCE"
  proof -
    let ?name = "known_face_names ! first_min ?ds"
    obtain s' where s': "mark_attendance_via_api post ?name s = Inr s'"
      using mark_via_api_total[of post ?name s] by blast
    show ?thesis
      using that s' by (intro exI[of _ ?name]) (simp add: d process_face_log_def process_face_api_def)
  qed
  have iff: "(\<exists>name. decision euclid known_face_encodings known_face_names q = Inr (Some name))
            \<longleftrightarrow> Min (set ?ds) < TOLERANCE"
    by (simp add: d)
  show ?thesis using iff rejected accepted by blast
qed

theorem threshold_semantics_witness:
  "decision scenario_euclid [0] [''Chetan Yadav''] (1 / 2) = Inr (Some ''Chetan Yadav'')
   \<and> Min (set (face_distance scenario_euclid [0] (1 / 2))) < TOLERANCE
   \<and> TOLERANCE \<le> Min (set (face_distance scenario_euclid [0] (6 / 10)))
   \<and> decision scenario_euclid [0] [''Chetan Yadav''] (6 / 10) = Inr None
   \<and> process_face_log scenario_env scenario_euclid [0] [''Chetan Yadav''] (6 / 10) scenario_start
       = Inr (NOT_MATCH, scenario_start)
   \<and> process_face_api (flask_post (\<lambda>k. int k)) scenario_euclid [0] [''Chetan Yadav''] (6 / 10)
         scenario_remote
       = Inr (NOT_MATCH, scenario_remote)"
proof -
  have far: "TOLERANCE \<le> Min (set (face_distance scenario_euclid [0] (6 / 10)))"
    by (simp add: face_distance_def scenario_euclid_def TOLERANCE_def)
  have near: "Min (set (face_distance scenario_euclid [0] (1 / 2))) < TOLERANCE"
    by (simp add: face_distance_def scenario_euclid_def TOLERANCE_def)
  have acc: "decision scenario_euclid [0] [''Chetan Yadav''] (1 / 2) = Inr (Some ''Chetan Yadav'')"
    by (simp add: decision_def face_distance_def compare_faces_def np_argmin_def py_index_def
        scenario_euclid_def TOLERANCE_def)
  show ?thesis
    using threshold_semantics[of "[0]" "[''Chetan Yadav'']" scenario_euclid "6 / 10"
        scenario_env scenario_start "flask_post (\<lambda>k. int k)" scenario_remote]
      far near acc
    by simp
qed

subsection \<open>C4: the gallery\<close>

text \<open>
  C4, as stated, asks for one entry per identity. The code appends one entry for every
  image in which a face is found, so a person with two such images is in the gallery
  twice, under the same name.
\<close>

theorem gallery_names_not_unique:
  "load_known_faces [(''chetan_yadav'', [[1::nat], [2]])]
     = ([1, 2], [''Chetan Yadav'', ''Chetan Yadav''])
   \<and> \<not> distinct (snd (load_known_faces [(''chetan_yadav'', [[1::nat], [2]])]))"
  by code_simp

text \<open>
  C4, amended: the gallery has, for every entry of the roster whose name does not start
  with a dot, in the order of the listing, one entry for every image with at least one
  encoding, in the order of the files: the first encoding of that image, under the
  display name of the directory. The two lists have the same length.
\<close>

theorem gallery_one_entry_per_image:
  "load_known_faces roster =
     (concat (map (\<lambda>(name, files). map hd (filter (\<lambda>encodings. encodings \<noteq> []) files))
                (filter (\<lambda>(name, files). \<not> startswith_dot name) roster)),
      concat (map (\<lambda>(name, files).
                  replicate (length (filter (\<lambda>encodings. encodings \<noteq> []) files)) (display_name name))
                (filter (\<lambda>(name, files). \<not> startswith_dot name) roster)))
   \<and> length (fst (load_known_faces roster)) = length (snd (load_known_faces roster))"
proof -
  have len: "length (concat (map (\<lambda>(name, files). map hd (filter (\<lambda>e. e \<noteq> []) files)) r))
     = length (concat (map (\<lambda>(name, files).
                  replicate (length (filter (\<lambda>e. e \<noteq> []) files)) (display_name name)) r))"
    for r :: "(string \<times> 'a list list) list"
    by (induction r) auto
  show ?thesis
    unfolding load_known_faces_def load_dirs_closed using len by simp
qed

subsection \<open>C5: the answers of the remote sink\<close>

text \<open>
  C5, as stated, has a 409 answer treated as a duplicate. The client has one branch for
  201 and one for every other status: a 409 is printed as a failure like any other,
  and the server's \<open>mark_attendance\<close> never answers 409.
\<close>

theorem conflict_is_generic_failure:
  "mark_attendance_via_api
       (\<lambda>n payload. (Inr (409, JsonObject [(''error'', ''Already marked'')]), n))
       ''Chetan Yadav'' \<lparr>network = (), posted = [], console = []\<rparr>
     = Inr \<lparr>network = (), posted = [''chetan_yadav''],
            console = [API_FAIL 409 ''Already marked'']\<rparr>
   \<and> outcome_of_line (API_FAIL 409 ''Already marked'') \<noteq> spec_sink_protocol 409"
  by code_simp

text \<open>
  C5, amended: when the request is answered, a 201 is printed as success; every other
  status, 409 included, is printed as a failure with the status and the \<open>error\<close> field of
  the JSON object (or \<open>Unknown server issue.\<close> when the object has none), and as an
  unexpected error when the body is not a JSON object; in each case the function
  returns. The server's \<open>mark_attendance\<close> answers 201, 400 or 404 only, and its 400 and
  404 carry an \<open>error\<close> field and leave the database as it was.
\<close>

theorem sink_response_handling:
  "(post (network w) (str_replace (CHR '' '') (CHR ''_'') (str_lower face_id_name))
        = (Inr (status_code, body), net) \<longrightarrow>
      mark_attendance_via_api post face_id_name w =
        Inr (w\<lparr>network := net,
               posted := posted w @ [str_replace (CHR '' '') (CHR ''_'') (str_lower face_id_name)],
               console := console w @
                 [if status_code = 201 then API_SUCCESS face_id_name
                  else (case body of
                          NotJson \<Rightarrow> API_ERROR JSONDecodeError
                        | JsonOther \<Rightarrow> API_ERROR AttributeError
                        | JsonObject kvs \<Rightarrow>
                            (case map_of kvs ''error'' of
                               None \<Rightarrow> API_FAIL status_code ''Unknown server issue.''
                             | Some m \<Rightarrow> API_FAIL status_code m))]\<rparr>))
   \<and> fst (fst (mark_attendance utcnow data d)) \<in> {201, 400, 404}
   \<and> (fst (fst (mark_attendance utcnow data d)) \<noteq> 201 \<longrightarrow>
        (\<exists>m. map_of (snd (fst (mark_attendance utcnow data d))) ''error'' = Some m)
        \<and> snd (mark_attendance utcnow data d) = d)"
proof -
  have client: "mark_attendance_via_api post face_id_name w =
        Inr (w\<lparr>network := net,
               posted := posted w @ [str_replace (CHR '' '') (CHR ''_'') (str_lower face_id_name)],
               console := console w @
                 [if status_code = 201 then API_SUCCESS face_id_name
                  else (case body of
                          NotJson \<Rightarrow> API_ERROR JSONDecodeError
                        | JsonOther \<Rightarrow> API_ERROR AttributeError
                        | JsonObject kvs \<Rightarrow>
                            (case map_of kvs ''error'' of
                               None \<Rightarrow> API_FAIL status_code ''Unknown server issue.''
                             | Some m \<Rightarrow> API_FAIL status_code m))]\<rparr>)"
    if "post (network w) (str_replace (CHR '' '') (CHR ''_'') (str_lower face_id_name))
        = (Inr (status_code, body), net)"
    using that
    by (simp add: mark_attendance_via_api_def api_try_def error_msg_of_def Let_def
        split: json_body.splits option.splits)
  have server: "fst (fst (mark_attendance utcnow data d)) \<in> {201, 400, 404}"
    by (simp add: mark_attendance_def split: option.splits)
  have err: "(\<exists>m. map_of (snd (fst (mark_attendance utcnow data d))) ''error'' = Some m)
        \<and> snd (mark_attendance utcnow data d) = d"
    if "fst (fst (mark_attendance utcnow data d)) \<noteq> 201"
    using that by (auto simp add: mark_attendance_def split: option.splits if_splits)
  show ?thesis using client server err by blast
qed

theorem sink_response_handling_witness:
  "flask_post (\<lambda>k. int k) (network scenario_remote)
       (str_replace (CHR '' '') (CHR ''_'') (str_lower ''Yug Patel''))
     = (Inr (404, JsonObject [(''error'',
          ''ID yug_patel recognized by AI but not found in DB. Enroll first.'')]),
        (scenario_db, 1))
   \<and> mark_attendance_via_api (flask_post (\<lambda>k. int k)) ''Yug Patel'' scenario_remote
     = Inr \<lparr>network = (scenario_db, 1), posted = [''yug_patel''],
            console = [API_FAIL 404
              ''ID yug_patel recognized by AI but not found in DB. Enroll first.'']\<rparr>
   \<and> fst (fst (mark_attendance 0 [(''face_id'', ''yug_patel'')] scenario_db)) = 404
   \<and> map_of (snd (fst (mark_attendance 0 [(''face_id'', ''yug_patel'')] scenario_db))) ''error''
       = Some ''ID yug_patel recognized by AI but not found in DB. Enroll first.''
   \<and> snd (mark_attendance 0 [(''face_id'', ''yug_patel'')] scenario_db) = scenario_db"
proof -
  have p: "flask_post (\<lambda>k. int k) (network scenario_remote)
       (str_replace (CHR '' '') (CHR ''_'') (str_lower ''Yug Patel''))
     = (Inr (404, JsonObject [(''error'',
          ''ID yug_patel recognized by AI but not found in DB. Enroll first.'')]),
        (scenario_db, 1))"
    by code_simp
  have s: "fst (fst (mark_attendance 0 [(''face_id'', ''yug_patel'')] scenario_db)) = 404"
    by code_simp
  have e: "map_of (snd (fst (mark_attendance 0 [(''face_id'', ''yug_patel'')] scenario_db))) ''error''
       = Some ''ID yug_patel recognized by AI but not found in DB. Enroll first.''"
    by code_simp
  note inst = sink_response_handling[where post = "flask_post (\<lambda>k. int k)"
      and w = scenario_remote and face_id_name = "''Yug Patel''" and status_code = 404
      and body = "JsonObject [(''error'',
          ''ID yug_patel recognized by AI but not found in DB. Enroll first.'')]"
      and net = "(scenario_db, 1)" and utcnow = 0 and data = "[(''face_id'', ''yug_patel'')]"
      and d = scenario_db]
  from inst p have m: "mark_attendance_via_api (flask_post (\<lambda>k. int k)) ''Yug Patel'' scenario_remote
     = Inr (scenario_remote\<lparr>network := (scenario_db, 1),
               posted := posted scenario_remote @
                 [str_replace (CHR '' '') (CHR ''_'') (str_lower ''Yug Patel'')],
               console := console scenario_remote @
                 [if (404::nat) = 201 then API_SUCCESS ''Yug Patel''
                  else (case JsonObject [(''error'',
                          ''ID yug_patel recognized by AI but not found in DB. Enroll first.'')] of
                          NotJson \<Rightarrow> API_ERROR JSONDecodeError
                        | JsonOther \<Rightarrow> API_ERROR AttributeError
                        | JsonObject kvs \<Rightarrow>
                            (case map_of kvs ''error'' of
                               None \<Rightarrow> API_FAIL 404 ''Unknown server issue.''
                             | Some m \<Rightarrow> API_FAIL 404 m))]\<rparr>)"
    by blast
  have r: "scenario_remote\<lparr>network := (scenario_db, 1),
               posted := posted scenario_remote @
                 [str_replace (CHR '' '') (CHR ''_'') (str_lower ''Yug Patel'')],
               console := console scenario_remote @
                 [if (404::nat) = 201 then API_SUCCESS ''Yug Patel''
                  else (case JsonObject [(''error'',
                          ''ID yug_patel recognized by AI but not found in DB. Enroll first.'')] of
                          NotJson \<Rightarrow> API_ERROR JSONDecodeError
                        | JsonOther \<Rightarrow> API_ERROR AttributeError
                        | JsonObject kvs \<Rightarrow>
                            (case map_of kvs ''error'' of
                               None \<Rightarrow> API_FAIL 404 ''Unknown server issue.''
                             | Some m \<Rightarrow> API_FAIL 404 m))]\<rparr>
     = \<lparr>network = (scenario_db, 1), posted = [''yug_patel''],
            console = [API_FAIL 404
              ''ID yug_patel recognized by AI but not found in DB. Enroll first.'']\<rparr>"
    by code_simp
  from inst s have d: "snd (mark_attendance 0 [(''face_id'', ''yug_patel'')] scenario_db) = scenario_db"
    by simp
  from m have m': "mark_attendance_via_api (flask_post (\<lambda>k. int k)) ''Yug Patel'' scenario_remote
     = Inr \<lparr>network = (scenario_db, 1), posted = [''yug_patel''],
            console = [API_FAIL 404
              ''ID yug_patel recognized by AI but not found in DB. Enroll first.'']\<rparr>"
    by (simp only: r)
  show ?thesis
    using p m' s e d by blast
qed

subsection \<open>C6: ties\<close>

text \<open>
  C6: for a gallery that is not empty, \<open>np.argmin\<close> returns an index of the smallest
  distance, no entry with the same distance has a lower index, and a name that the
  decision returns is the name at this index.
\<close>

theorem tie_break_lowest_index:
  assumes "known_face_encodings \<noteq> []"
    and "length known_face_names = length known_face_encodings"
  shows "\<exists>i < length known_face_encodings.
           np_argmin (face_distance euclid known_face_encodings q) = Inr i
         \<and> euclid (known_face_encodings ! i) q
             = Min (set (face_distance euclid known_face_encodings q))
         \<and> (\<forall>j < length known_face_encodings.
               euclid (known_face_encodings ! j) q = euclid (known_face_encodings ! i) q
               \<longrightarrow> i \<le> j)
         \<and> (\<forall>name. decision euclid known_face_encodings known_face_names q = Inr (Some name)
               \<longrightarrow> name = known_face_names ! i)"
proof -
  let ?ds = "face_distance euclid known_face_encodings q"
  have ne: "?ds \<noteq> []" using assms by (simp add: face_distance_def)
  have len: "length ?ds = length known_face_encodings" by (simp add: face_distance_def)
  have nth: "\<And>j. j < length known_face_encodings \<Longrightarrow> ?ds ! j = euclid (known_face_encodings ! j) q"
    by (simp add: face_distance_def)
  let ?i = "first_min ?ds"
  have lt: "?i < length known_face_encodings" using first_min_less[OF ne] len by simp
  have mn: "?ds ! ?i = Min (set ?ds)" by (rule first_min_is_min[OF ne])
  have least: "\<forall>j < length known_face_encodings.
               euclid (known_face_encodings ! j) q = euclid (known_face_encodings ! ?i) q
               \<longrightarrow> ?i \<le> j"
  proof (intro allI impI)
    fix j assume j: "j < length known_face_encodings"
      and eq: "euclid (known_face_encodings ! j) q = euclid (known_face_encodings ! ?i) q"
    have "?ds ! j = Min (set ?ds)" using nth[OF j] nth[OF lt] eq mn by simp
    then show "?i \<le> j" using first_min_least[of j ?ds] j len by simp
  qed
  have dec: "\<forall>name. decision euclid known_face_encodings known_face_names q = Inr (Some name)
               \<longrightarrow> name = known_face_names ! ?i"
    using decision_nonempty[OF assms, of euclid q] by (simp add: Let_def split: if_splits)
  show ?thesis
    using lt np_argmin_first_min[OF ne] mn nth[OF lt] least dec by metis
qed

theorem tie_break_lowest_index_witness:
  "scenario_euclid 0 (4 / 10) = scenario_euclid (8 / 10) (4 / 10)
   \<and> np_argmin (face_distance scenario_euclid [1, 0, 8 / 10] (4 / 10)) = Inr 1
   \<and> decision scenario_euclid [1, 0, 8 / 10] [''Ann'', ''Bob'', ''Cid''] (4 / 10)
       = Inr (Some ''Bob'')"
proof -
  have tie: "scenario_euclid 0 (4 / 10) = scenario_euclid (8 / 10) (4 / 10)"
    by (simp add: scenario_euclid_def)
  have arg: "np_argmin (face_distance scenario_euclid [1, 0, 8 / 10] (4 / 10)) = Inr 1"
    by (simp add: face_distance_def np_argmin_def scenario_euclid_def)
  have dec: "decision scenario_euclid [1, 0, 8 / 10] [''Ann'', ''Bob'', ''Cid''] (4 / 10)
       = Inr (Some ''Bob'')"
    by (simp add: decision_def face_distance_def compare_faces_def np_argmin_def py_index_def
        scenario_euclid_def TOLERANCE_def)
  show ?thesis
    using tie_break_lowest_index[of "[1, 0, 8 / 10]" "[''Ann'', ''Bob'', ''Cid'']"
        scenario_euclid "4 / 10"] tie arg dec
    by simp
qed

subsection \<open>C7: a suppressed call leaves the log as it is\<close>

text \<open>
  C7: when \<open>log_attendance\<close> does not log the name, which happens exactly when a line of
  the log for this name is less than 3600 seconds old at the time it is read, the file
  is left as it was and no event is emitted.
\<close>

theorem suppressed_leaves_log:
  assumes "\<not> fst (log_attendance env name w)"
  shows "log_file (snd (log_attendance env name w)) = log_file w
       \<and> run_log env [name] w = []
       \<and> (\<exists>k < length (file_entries env (log_file w)).
            fst (file_entries env (log_file w) ! k) = name
          \<and> now_at env (clock_reads w + k) - snd (file_entries env (log_file w) ! k) < 3600)"
proof -
  have "log_file (snd (log_attendance env name w)) = log_file w"
    using assms by (simp add: log_attendance_state Let_def)
  moreover have "run_log env [name] w = []"
    using assms by (simp add: case_prod_beta)
  moreover have "\<exists>k < length (file_entries env (log_file w)).
            fst (file_entries env (log_file w) ! k) = name
          \<and> now_at env (clock_reads w + k) - snd (file_entries env (log_file w) ! k) < 3600"
    using assms unfolding log_attendance_logged_iff by (auto simp add: not_le)
  ultimately show ?thesis by blast
qed

theorem suppressed_leaves_log_witness:
  "\<not> fst (log_attendance scenario_env ''Chetan Yadav''
            (snd (log_attendance scenario_env ''Chetan Yadav'' scenario_start)))
   \<and> log_file (snd (log_attendance scenario_env ''Chetan Yadav''
                      (snd (log_attendance scenario_env ''Chetan Yadav'' scenario_start))))
       = ''Name, Timestamp'' @ [LF, LF] @ ''Chetan Yadav, 2024-01-01 00:00:00''
   \<and> log_file (snd (log_attendance scenario_env ''Chetan Yadav'' scenario_start))
       = ''Name, Timestamp'' @ [LF, LF] @ ''Chetan Yadav, 2024-01-01 00:00:00''"
proof -
  let ?w1 = "snd (log_attendance scenario_env ''Chetan Yadav'' scenario_start)"
  have s: "\<not> fst (log_attendance scenario_env ''Chetan Yadav'' ?w1)" by code_simp
  have f: "log_file ?w1 = ''Name, Timestamp'' @ [LF, LF] @ ''Chetan Yadav, 2024-01-01 00:00:00''"
    by code_simp
  show ?thesis
    using suppressed_leaves_log[OF s] s f by simp
qed

subsection \<open>C8: a failed delivery is logged and dropped\<close>

text \<open>
  C8: whatever \<open>requests.post\<close> does (raise a connection error or another exception,
  or return any response), \<open>mark_attendance_via_api\<close> returns, after exactly one
  request and with exactly one line printed, the network being in the state that this
  one request left; and no exception of the sink leaves the body of the main loop.
\<close>

theorem sink_failure_dropped:
  "(\<exists>w'. mark_attendance_via_api post face_id_name w = Inr w'
        \<and> posted w' = posted w @ [str_replace (CHR '' '') (CHR ''_'') (str_lower face_id_name)]
        \<and> network w' = snd (post (network w)
                              (str_replace (CHR '' '') (CHR ''_'') (str_lower face_id_name)))
        \<and> console w' = console w @
             [case fst (post (network w)
                          (str_replace (CHR '' '') (CHR ''_'') (str_lower face_id_name))) of
                Inl ConnectionError \<Rightarrow> API_FATAL
              | Inl e \<Rightarrow> API_ERROR e
              | Inr (status_code, body) \<Rightarrow>
                  if status_code = 201 then API_SUCCESS face_id_name
                  else (case error_msg_of body of
                          Inl e \<Rightarrow> API_ERROR e
                        | Inr error_msg \<Rightarrow> API_FAIL status_code error_msg)])
   \<and> (\<forall>e. process_face_api post euclid known_face_encodings known_face_names q w
            \<noteq> Inl (Sink e))"
proof -
  obtain r net where p: "post (network w)
      (str_replace (CHR '' '') (CHR ''_'') (str_lower face_id_name)) = (r, net)"
    by fastforce
  have one: "\<exists>w'. mark_attendance_via_api post face_id_name w = Inr w'
        \<and> posted w' = posted w @ [str_replace (CHR '' '') (CHR ''_'') (str_lower face_id_name)]
        \<and> network w' = snd (post (network w)
                              (str_replace (CHR '' '') (CHR ''_'') (str_lower face_id_name)))
        \<and> console w' = console w @
             [case fst (post (network w)
                          (str_replace (CHR '' '') (CHR ''_'') (str_lower face_id_name))) of
                Inl ConnectionError \<Rightarrow> API_FATAL
              | Inl e \<Rightarrow> API_ERROR e
              | Inr (status_code, body) \<Rightarrow>
                  if status_code = 201 then API_SUCCESS face_id_name
                  else (case error_msg_of body of
                          Inl e \<Rightarrow> API_ERROR e
                        | Inr error_msg \<Rightarrow> API_FAIL status_code error_msg)]"
    by (auto simp add: mark_attendance_via_api_def api_try_def error_msg_of_def p Let_def
        split: sum.splits exn.splits json_body.splits option.splits)
  have two: "process_face_api post euclid known_face_encodings known_face_names q w \<noteq> Inl (Sink e)"
    for e
  proof -
    have "mark_attendance_via_api post n w \<noteq> Inl e" for n
      using mark_via_api_total[of post n w] by auto
    then show ?thesis
      by (auto simp add: process_face_api_def split: sum.splits option.splits)
  qed
  show ?thesis using one two by blast
qed

theorem sink_failure_dropped_witness:
  "mark_attendance_via_api (\<lambda>n payload. (Inl ConnectionError, Suc n)) ''Chetan Yadav''
       \<lparr>network = 0, posted = [], console = []\<rparr>
     = Inr \<lparr>network = 1, posted = [''chetan_yadav''], console = [API_FATAL]\<rparr>
   \<and> process_face_api (\<lambda>n payload. (Inl ConnectionError, Suc n)) scenario_euclid
         [0] [''Chetan Yadav''] 0 \<lparr>network = 0, posted = [], console = []\<rparr>
     = Inr (''Chetan Yadav'', \<lparr>network = 1, posted = [''chetan_yadav''], console = [API_FATAL]\<rparr>)"
proof -
  have a: "mark_attendance_via_api (\<lambda>n payload. (Inl ConnectionError, Suc n)) ''Chetan Yadav''
       \<lparr>network = 0::nat, posted = [], console = []\<rparr>
     = Inr \<lparr>network = 1, posted = [''chetan_yadav''], console = [API_FATAL]\<rparr>"
    by code_simp
  have d: "decision scenario_euclid [0] [''Chetan Yadav''] 0 = Inr (Some ''Chetan Yadav'')"
    by (simp add: decision_def face_distance_def compare_faces_def np_argmin_def py_index_def
        scenario_euclid_def TOLERANCE_def)
  have b: "process_face_api (\<lambda>n payload. (Inl ConnectionError, Suc n)) scenario_euclid
         [0] [''Chetan Yadav''] 0 \<lparr>network = 0::nat, posted = [], console = []\<rparr>
     = Inr (''Chetan Yadav'', \<lparr>network = 1, posted = [''chetan_yadav''], console = [API_FATAL]\<rparr>)"
    by (simp add: process_face_api_def d a)
  show ?thesis
    using sink_failure_dropped[of "\<lambda>n payload. (Inl ConnectionError, Suc n)" "''Chetan Yadav''"
        "\<lparr>network = 0::nat, posted = [], console = []\<rparr>" scenario_euclid "[0]"
        "[''Chetan Yadav'']" 0] a b
    by blast
qed

subsection \<open>C9: the identifier sent to the sink\<close>



subsection \<open>C10: the two-part test\<close>

text \<open>
  C10: the decision with the single test \<open>face_distances[best_match_index] < TOLERANCE\<close>
  is the decision of the code, on every input (also on the empty gallery, where both
  raise).
\<close>

theorem two_part_test_redundant:
  "decision_single_test euclid known_face_encodings known_face_names q
     = decision euclid known_face_encodings known_face_names q"
proof (cases "known_face_encodings = []")
  case True
  then show ?thesis
    by (simp add: decision_def decision_single_test_def face_distance_def np_argmin_def)
next
  case False
  let ?ds = "face_distance euclid known_face_encodings q"
  have ne: "?ds \<noteq> []" using False by (simp add: face_distance_def)
  have len: "length ?ds = length known_face_encodings" by (simp add: face_distance_def)
  have lt: "first_min ?ds < length ?ds" by (rule first_min_less[OF ne])
  show ?thesis
    using lt len
    by (simp add: decision_def decision_single_test_def np_argmin_first_min[OF ne]
        py_index_def compare_faces_def Let_def)
qed

end
